theory Spec2Isabelle
  imports Complex_Main
begin

section \<open>Klipper log analyser: the parsing pipeline and its reports\<close>

text \<open>
  A shallow embedding of \<^verbatim>\<open>klipper_log_analyzer.py\<close> (class
  \<^verbatim>\<open>KlipperLogAnalyzer\<close>). The analyser object is a record that every method takes
  and returns; a Python exception is the left summand of a sum type. Lines are ASCII
  strings: the character classes of the regular expressions (\<^verbatim>\<open>\w\<close>, \<^verbatim>\<open>\d\<close>,
  whitespace, case folding) are the ASCII ones. A Python float is the exact decimal it was
  read from (rounding to binary64 and overflow are not part of the embedding), next to the
  two infinities and NaN.
\<close>

subsection \<open>Characters and strings\<close>

definition is_digit :: "char \<Rightarrow> bool" where
  "is_digit c = (c \<in> set ''0123456789'')"

definition is_upper :: "char \<Rightarrow> bool" where
  "is_upper c = (c \<in> set ''ABCDEFGHIJKLMNOPQRSTUVWXYZ'')"

definition is_lower :: "char \<Rightarrow> bool" where
  "is_lower c = (c \<in> set ''abcdefghijklmnopqrstuvwxyz'')"

text \<open>\<^verbatim>\<open>\w\<close>: letters, digits and the underscore.\<close>

definition is_word :: "char \<Rightarrow> bool" where
  "is_word c = (is_lower c \<or> is_upper c \<or> is_digit c \<or> c = CHR ''_'')"

text \<open>The character class \<^verbatim>\<open>[0-9.-]\<close>.\<close>

definition is_num :: "char \<Rightarrow> bool" where
  "is_num c = (is_digit c \<or> c = CHR ''.'' \<or> c = CHR ''-'')"

text \<open>What \<^verbatim>\<open>str.strip()\<close> removes: tab, LF, VT, FF, CR, FS, GS, RS, US and the space.\<close>

definition is_space :: "char \<Rightarrow> bool" where
  "is_space c = (of_char c \<in> set [9, 10, 11, 12, 13, 28, 29, 30, 31, 32 :: nat])"

definition newline :: char where
  "newline = CHR 0x0A"

definition strip :: "string \<Rightarrow> string" where
  "strip s = rev (dropWhile is_space (rev (dropWhile is_space s)))"

definition lower_char :: "char \<Rightarrow> char" where
  "lower_char c = (if is_upper c then char_of (of_char c + (32 :: nat)) else c)"

definition lower :: "string \<Rightarrow> string" where
  "lower s = map lower_char s"

text \<open>The greedy run of a character class at the head of a string, and what follows it.\<close>

definition span :: "(char \<Rightarrow> bool) \<Rightarrow> string \<Rightarrow> string \<times> string" where
  "span P s = (takeWhile P s, dropWhile P s)"

text \<open>A literal piece of a pattern: the rest of the string when it starts with the literal.\<close>

fun strip_prefix :: "string \<Rightarrow> string \<Rightarrow> string option" where
  "strip_prefix [] s = Some s"
| "strip_prefix (p # ps) [] = None"
| "strip_prefix (p # ps) (c # cs) = (if p = c then strip_prefix ps cs else None)"

fun startswith :: "string \<Rightarrow> string \<Rightarrow> bool" where
  "startswith s [] = True"
| "startswith [] (p # ps) = False"
| "startswith (c # cs) (p # ps) = (c = p \<and> startswith cs ps)"

definition endswith :: "string \<Rightarrow> string \<Rightarrow> bool" where
  "endswith s p = startswith (rev s) (rev p)"

text \<open>\<^verbatim>\<open>p in s\<close> for strings: \<open>p\<close> occurs somewhere in \<open>s\<close>.\<close>

fun contains :: "string \<Rightarrow> string \<Rightarrow> bool" where
  "contains p [] = (p = [])"
| "contains p (c # cs) = (startswith (c # cs) p \<or> contains p cs)"

text \<open>
  \<^verbatim>\<open>re.search(pattern, line, re.IGNORECASE)\<close> for a pattern made of letters only: the
  pattern occurs in the line, letter case ignored on both sides.
\<close>

definition re_search_ignorecase :: "string \<Rightarrow> string \<Rightarrow> bool" where
  "re_search_ignorecase pattern line = contains (lower pattern) (lower line)"

text \<open>\<^verbatim>\<open>s.replace(old, '')\<close> for a non-empty \<open>old\<close>: every occurrence is removed, left to right.\<close>

fun remove_all :: "string \<Rightarrow> string \<Rightarrow> string" where
  "remove_all old [] = []"
| "remove_all old (c # cs) =
     (if old \<noteq> [] \<and> startswith (c # cs) old
      then remove_all old (drop (length old) (c # cs))
      else c # remove_all old cs)"

subsection \<open>Python values\<close>

datatype pyfloat = Fin rat | PInf | NInf | NaN

datatype pyval = PFloat pyfloat | PStr string | PInt int

text \<open>
  \<open>ValueError\<close> is what \<^verbatim>\<open>float\<close> raises on a text that is no number. \<open>ColumnError\<close>
  stands for the exception (a \<^verbatim>\<open>TypeError\<close>, or a \<^verbatim>\<open>ValueError\<close> from a conversion or
  a number format) that a numeric aggregation or a number format raises when it meets a
  text value.
\<close>

datatype error = ValueError | ColumnError

definition nat_of_digits :: "string \<Rightarrow> nat" where
  "nat_of_digits s = foldl (\<lambda>n c. 10 * n + (of_char c - 48)) 0 s"

definition decimal :: "string \<Rightarrow> string \<Rightarrow> rat" where
  "decimal ip fp = of_nat (nat_of_digits ip) + of_nat (nat_of_digits fp) / 10 ^ length fp"

definition fneg :: "pyfloat \<Rightarrow> pyfloat" where
  "fneg x = (case x of Fin r \<Rightarrow> Fin (- r) | PInf \<Rightarrow> NInf | NInf \<Rightarrow> PInf | NaN \<Rightarrow> NaN)"

definition float_special :: "string \<Rightarrow> pyfloat option" where
  "float_special s =
     (if lower s = ''inf'' \<or> lower s = ''infinity'' then Some PInf
      else if lower s = ''nan'' then Some NaN
      else None)"

definition float_unsigned :: "string \<Rightarrow> pyfloat option" where
  "float_unsigned s =
     (let (ip, r) = span is_digit s in
      case r of
        [] \<Rightarrow> if ip = [] then None else Some (Fin (decimal ip []))
      | c # fp \<Rightarrow>
          if c = CHR ''.'' \<and> list_all is_digit fp \<and> (ip \<noteq> [] \<or> fp \<noteq> [])
          then Some (Fin (decimal ip fp))
          else float_special s)"

text \<open>
  \<^verbatim>\<open>float(s)\<close> on the strings the patterns below can capture (runs of \<^verbatim>\<open>[0-9.-]\<close>
  and words): an optional minus sign, then digits with at most one point and at least one
  digit, or one of \<^verbatim>\<open>inf\<close>, \<^verbatim>\<open>infinity\<close>, \<^verbatim>\<open>nan\<close> in any letter case. \<open>None\<close> is
  the \<^verbatim>\<open>ValueError\<close>.
\<close>

definition py_float :: "string \<Rightarrow> pyfloat option" where
  "py_float s =
     (case s of
        [] \<Rightarrow> None
      | c # r \<Rightarrow> if c = CHR ''-'' then map_option fneg (float_unsigned r) else float_unsigned s)"

subsection \<open>Dictionaries\<close>

text \<open>
  A Python \<^verbatim>\<open>dict\<close> keeps its keys in insertion order; assigning to a key that is
  present replaces its value in place.
\<close>

type_synonym ('k, 'v) dict = "('k \<times> 'v) list"

fun dict_set :: "'k \<Rightarrow> 'v \<Rightarrow> ('k, 'v) dict \<Rightarrow> ('k, 'v) dict" where
  "dict_set k v [] = [(k, v)]"
| "dict_set k v ((k', v') # d) = (if k' = k then (k, v) # d else (k', v') # dict_set k v d)"

definition dict_get :: "('k, 'v) dict \<Rightarrow> 'k \<Rightarrow> 'v option" where
  "dict_get d k = map_of d k"

definition dict_keys :: "('k, 'v) dict \<Rightarrow> 'k list" where
  "dict_keys d = map fst d"

subsection \<open>The analyser object\<close>

record mcu_info =
  commands :: nat
  version_info :: string
  mcu_line_number :: nat
  config :: "string option"
  moves :: "nat option"

record timeline_entry =
  tl_line :: nat
  tl_type :: string
  tl_mcu :: string
  tl_message :: string

record error_entry =
  err_line_number :: nat
  err_type :: string
  err_message :: string

record config_section =
  cs_line_number :: nat
  cs_content :: "string list"

type_synonym snapshot = "(string, pyval) dict"

record analyzer =
  stats_data :: "snapshot list"
  mcu_configs :: "(string, mcu_info) dict"
  errors :: "error_entry list"
  config_sections :: "(string, config_section) dict"
  timeline :: "timeline_entry list"
  performance_metrics :: "(string, pyval list) dict"

definition init :: analyzer where
  "init = \<lparr>stats_data = [], mcu_configs = [], errors = [], config_sections = [],
           timeline = [], performance_metrics = []\<rparr>"

subsection \<open>Line patterns\<close>

text \<open>
  Each \<^verbatim>\<open>re.match\<close> is anchored at the start of the line. In every pattern a greedy
  run (\<^verbatim>\<open>\w+\<close>, \<^verbatim>\<open>\d+\<close>, \<^verbatim>\<open>[0-9.-]+\<close>) is followed by a literal character outside
  its class, so the only run that can lead to a match is the longest one: the matchers take
  the longest run and then demand the literal. \<^verbatim>\<open>.\<close> is any character but the newline.
\<close>

definition squote :: string where
  "squote = [CHR 0x27]"

definition not_newline :: "char \<Rightarrow> bool" where
  "not_newline c = (c \<noteq> newline)"

text \<open>\<^verbatim>\<open>Loaded MCU '(\w+)' (\d+) commands \((.*?)\)\<close>: name, command count, version info.\<close>

definition match_mcu_load :: "string \<Rightarrow> (string \<times> string \<times> string) option" where
  "match_mcu_load line =
     (case strip_prefix (''Loaded MCU '' @ squote) line of
        None \<Rightarrow> None
      | Some r1 \<Rightarrow>
          let (name, r2) = span is_word r1 in
          if name = [] then None
          else case strip_prefix (squote @ '' '') r2 of
            None \<Rightarrow> None
          | Some r3 \<Rightarrow>
              let (cmds, r4) = span is_digit r3 in
              if cmds = [] then None
              else case strip_prefix '' commands ('' r4 of
                None \<Rightarrow> None
              | Some r5 \<Rightarrow>
                  let (version, r6) = span (\<lambda>c. c \<noteq> CHR '')'' \<and> not_newline c) r5 in
                  if startswith r6 '')'' then Some (name, cmds, version) else None)"

text \<open>\<^verbatim>\<open>MCU '(\w+)' config: (.*)\<close>: name and configuration text.\<close>

definition match_mcu_config :: "string \<Rightarrow> (string \<times> string) option" where
  "match_mcu_config line =
     (case strip_prefix (''MCU '' @ squote) line of
        None \<Rightarrow> None
      | Some r1 \<Rightarrow>
          let (name, r2) = span is_word r1 in
          if name = [] then None
          else case strip_prefix (squote @ '' config: '') r2 of
            None \<Rightarrow> None
          | Some r3 \<Rightarrow> Some (name, takeWhile not_newline r3))"

text \<open>\<^verbatim>\<open>Configured MCU '(\w+)' \((\d+) moves\)\<close>: name and move count.\<close>

definition match_mcu_configured :: "string \<Rightarrow> (string \<times> string) option" where
  "match_mcu_configured line =
     (case strip_prefix (''Configured MCU '' @ squote) line of
        None \<Rightarrow> None
      | Some r1 \<Rightarrow>
          let (name, r2) = span is_word r1 in
          if name = [] then None
          else case strip_prefix (squote @ '' ('') r2 of
            None \<Rightarrow> None
          | Some r3 \<Rightarrow>
              let (mv, r4) = span is_digit r3 in
              if mv = [] then None
              else if startswith r4 '' moves)'' then Some (name, mv) else None)"

text \<open>\<^verbatim>\<open>Stats (\d+\.?\d*): (.*)\<close>: timestamp text and the remainder of the line.\<close>

definition match_stats :: "string \<Rightarrow> (string \<times> string) option" where
  "match_stats line =
     (case strip_prefix ''Stats '' line of
        None \<Rightarrow> None
      | Some r1 \<Rightarrow>
          let (d1, r2) = span is_digit r1 in
          if d1 = [] then None
          else
            let (ts, r3) =
              (case r2 of
                 [] \<Rightarrow> (d1, r2)
               | c # r \<Rightarrow>
                   if c = CHR ''.'' then (d1 @ ''.'' @ takeWhile is_digit r, dropWhile is_digit r)
                   else (d1, r2))
            in case strip_prefix '': '' r3 of
                 None \<Rightarrow> None
               | Some r4 \<Rightarrow> Some (ts, takeWhile not_newline r4))"

text \<open>
  \<^verbatim>\<open>^\[([^\]]+)\]$\<close>: the section name. \<^verbatim>\<open>$\<close> is the end of the string, or the position
  before a newline that ends it.
\<close>

definition match_config_section :: "string \<Rightarrow> string option" where
  "match_config_section line =
     (case strip_prefix ''['' line of
        None \<Rightarrow> None
      | Some r1 \<Rightarrow>
          let (name, r2) = span (\<lambda>c. c \<noteq> CHR '']'') r1 in
          if name = [] then None
          else case strip_prefix '']'' r2 of
            None \<Rightarrow> None
          | Some r3 \<Rightarrow> if r3 = [] \<or> r3 = [newline] then Some name else None)"

subsection \<open>The sub-scans of a stats line\<close>

text \<open>
  \<^verbatim>\<open>re.findall\<close>: the matches from left to right, none overlapping the one before. A
  matcher gives its captures and the text after its match; \<open>skip\<close> counts the characters
  of the last match that are still to be passed over.
\<close>

fun findall_from :: "(string \<Rightarrow> ('a \<times> string) option) \<Rightarrow> nat \<Rightarrow> string \<Rightarrow> 'a list" where
  "findall_from m skip [] = []"
| "findall_from m skip (c # cs) =
     (if 0 < skip then findall_from m (skip - 1) cs
      else case m (c # cs) of
        None \<Rightarrow> findall_from m 0 cs
      | Some (x, rest) \<Rightarrow> x # findall_from m (length cs - length rest) cs)"

definition findall :: "(string \<Rightarrow> ('a \<times> string) option) \<Rightarrow> string \<Rightarrow> 'a list" where
  "findall m s = findall_from m 0 s"

text \<open>
  \<^verbatim>\<open>(\w+)=([0-9.-]+|active|inactive|\w+)\<close>: the alternatives of the value are tried in
  this order, and the first that matches is taken.
\<close>

definition kv_match :: "string \<Rightarrow> ((string \<times> string) \<times> string) option" where
  "kv_match s =
     (let (key, r1) = span is_word s in
      if key = [] then None
      else case strip_prefix ''='' r1 of
        None \<Rightarrow> None
      | Some r2 \<Rightarrow>
          if takeWhile is_num r2 \<noteq> [] then Some ((key, takeWhile is_num r2), dropWhile is_num r2)
          else if startswith r2 ''active'' then Some ((key, ''active''), drop 6 r2)
          else if startswith r2 ''inactive'' then Some ((key, ''inactive''), drop 8 r2)
          else if takeWhile is_word r2 \<noteq> [] then Some ((key, takeWhile is_word r2), dropWhile is_word r2)
          else None)"

text \<open>\<^verbatim>\<open>(\w+): temp=([0-9.-]+)\<close> and \<^verbatim>\<open>(\w+): target=([0-9.-]+)\<close>, by the name of the field.\<close>

definition field_match :: "string \<Rightarrow> string \<Rightarrow> ((string \<times> string) \<times> string) option" where
  "field_match field s =
     (let (sensor, r1) = span is_word s in
      if sensor = [] then None
      else case strip_prefix ('': '' @ field @ ''='') r1 of
        None \<Rightarrow> None
      | Some r2 \<Rightarrow>
          if takeWhile is_num r2 \<noteq> [] then Some ((sensor, takeWhile is_num r2), dropWhile is_num r2)
          else None)"

text \<open>
  The lazy \<^verbatim>\<open>.*?pwm=([0-9.-]+)\<close>: the first place, with no newline before it, where
  \<^verbatim>\<open>pwm=\<close> is followed by at least one character of \<^verbatim>\<open>[0-9.-]\<close>.
\<close>

fun find_pwm :: "string \<Rightarrow> (string \<times> string) option" where
  "find_pwm [] = None"
| "find_pwm (c # cs) =
     (case strip_prefix ''pwm='' (c # cs) of
        None \<Rightarrow> if c = newline then None else find_pwm cs
      | Some r \<Rightarrow>
          if takeWhile is_num r \<noteq> [] then Some (takeWhile is_num r, dropWhile is_num r)
          else if c = newline then None else find_pwm cs)"

text \<open>\<^verbatim>\<open>(\w+): .*?pwm=([0-9.-]+)\<close>.\<close>

definition pwm_match :: "string \<Rightarrow> ((string \<times> string) \<times> string) option" where
  "pwm_match s =
     (let (sensor, r1) = span is_word s in
      if sensor = [] then None
      else case strip_prefix '': '' r1 of
        None \<Rightarrow> None
      | Some r2 \<Rightarrow>
          (case find_pwm r2 of
             None \<Rightarrow> None
           | Some (pwm, rest) \<Rightarrow> Some ((sensor, pwm), rest)))"

subsection \<open>The four line parsers\<close>

text \<open>
  \<^verbatim>\<open>_parse_mcu_info\<close>: the three patterns are tried one after the other on the same line.
  \<^verbatim>\<open>int(...)\<close> of a run of digits is its value; the limit that newer interpreters put on
  the number of digits \<^verbatim>\<open>int\<close> accepts (a \<^verbatim>\<open>ValueError\<close> past 4300 digits) is not part
  of the embedding.
\<close>

definition parse_mcu_info :: "analyzer \<Rightarrow> string \<Rightarrow> nat \<Rightarrow> analyzer" where
  "parse_mcu_info st line n =
     (let st1 =
        (case match_mcu_load line of
           None \<Rightarrow> st
         | Some (mcu_name, cmds, version) \<Rightarrow>
             st\<lparr>mcu_configs :=
                  dict_set mcu_name
                    \<lparr>commands = nat_of_digits cmds, version_info = version, mcu_line_number = n,
                     config = None, moves = None\<rparr>
                    (mcu_configs st),
                timeline := timeline st @
                  [\<lparr>tl_line = n, tl_type = ''mcu_load'', tl_mcu = mcu_name, tl_message = line\<rparr>]\<rparr>);
      st2 =
        (case match_mcu_config line of
           None \<Rightarrow> st1
         | Some (mcu_name, config_data) \<Rightarrow>
             (case dict_get (mcu_configs st1) mcu_name of
                None \<Rightarrow> st1
              | Some info \<Rightarrow>
                  st1\<lparr>mcu_configs :=
                        dict_set mcu_name (info\<lparr>config := Some config_data\<rparr>) (mcu_configs st1)\<rparr>))
      in
        (case match_mcu_configured line of
           None \<Rightarrow> st2
         | Some (mcu_name, mv) \<Rightarrow>
             (case dict_get (mcu_configs st2) mcu_name of
                None \<Rightarrow> st2
              | Some info \<Rightarrow>
                  st2\<lparr>mcu_configs :=
                        dict_set mcu_name (info\<lparr>moves := Some (nat_of_digits mv)\<rparr>) (mcu_configs st2)\<rparr>)))"

text \<open>The generic scan keeps the text when \<^verbatim>\<open>float\<close> raises \<^verbatim>\<open>ValueError\<close>.\<close>

definition kv_value :: "string \<Rightarrow> pyval" where
  "kv_value v =
     (if v \<noteq> ''active'' \<and> v \<noteq> ''inactive''
      then (case py_float v of Some x \<Rightarrow> PFloat x | None \<Rightarrow> PStr v)
      else PStr v)"

fun store_kv :: "(string \<times> string) list \<Rightarrow> snapshot \<Rightarrow> snapshot" where
  "store_kv [] d = d"
| "store_kv ((key, v) # kvs) d = store_kv kvs (dict_set key (kv_value v) d)"

text \<open>The three sensor scans call \<^verbatim>\<open>float\<close> with no handler around it.\<close>

fun store_sensor :: "string \<Rightarrow> (string \<times> string) list \<Rightarrow> snapshot \<Rightarrow> error + snapshot" where
  "store_sensor suffix [] d = Inr d"
| "store_sensor suffix ((sensor, v) # svs) d =
     (case py_float v of
        None \<Rightarrow> Inl ValueError
      | Some x \<Rightarrow> store_sensor suffix svs (dict_set (sensor @ suffix) (PFloat x) d))"

fun track_metrics :: "string list \<Rightarrow> snapshot \<Rightarrow> (string, pyval list) dict \<Rightarrow> (string, pyval list) dict" where
  "track_metrics [] d pm = pm"
| "track_metrics (key # keys) d pm =
     (case dict_get d key of
        None \<Rightarrow> track_metrics keys d pm
      | Some v \<Rightarrow>
          track_metrics keys d
            (dict_set key ((case dict_get pm key of None \<Rightarrow> [] | Some vs \<Rightarrow> vs) @ [v]) pm))"

definition metric_names :: "string list" where
  "metric_names = [''freq'', ''sysload'', ''cputime'', ''memavail'']"

text \<open>The dictionary of one stats line: the four scans over the same remainder, in order.\<close>

definition stats_dict_of :: "pyfloat \<Rightarrow> nat \<Rightarrow> string \<Rightarrow> error + snapshot" where
  "stats_dict_of timestamp n stats_content =
     (let d0 = [(''timestamp'', PFloat timestamp), (''line_number'', PInt (int n))];
          d1 = store_kv (findall kv_match stats_content) d0
      in case store_sensor ''_temp'' (findall (field_match ''temp'') stats_content) d1 of
           Inl e \<Rightarrow> Inl e
         | Inr d2 \<Rightarrow>
             (case store_sensor ''_target'' (findall (field_match ''target'') stats_content) d2 of
                Inl e \<Rightarrow> Inl e
              | Inr d3 \<Rightarrow> store_sensor ''_pwm'' (findall pwm_match stats_content) d3))"

definition parse_stats_line :: "analyzer \<Rightarrow> string \<Rightarrow> nat \<Rightarrow> error + analyzer" where
  "parse_stats_line st line n =
     (case match_stats line of
        None \<Rightarrow> Inr st
      | Some (ts, stats_content) \<Rightarrow>
          (case py_float ts of
             None \<Rightarrow> Inl ValueError
           | Some timestamp \<Rightarrow>
               (case stats_dict_of timestamp n stats_content of
                  Inl e \<Rightarrow> Inl e
                | Inr d \<Rightarrow>
                    Inr (st\<lparr>stats_data := stats_data st @ [d],
                            performance_metrics :=
                              track_metrics metric_names d (performance_metrics st)\<rparr>))))"

text \<open>\<^verbatim>\<open>_parse_config_section\<close> also returns the name, or \<^verbatim>\<open>None\<close>.\<close>

definition parse_config_section :: "analyzer \<Rightarrow> string \<Rightarrow> nat \<Rightarrow> analyzer \<times> string option" where
  "parse_config_section st line n =
     (case match_config_section line of
        None \<Rightarrow> (st, None)
      | Some section_name \<Rightarrow>
          (st\<lparr>config_sections :=
                dict_set section_name \<lparr>cs_line_number = n, cs_content = []\<rparr> (config_sections st)\<rparr>,
           Some section_name))"

definition error_patterns :: "string list" where
  "error_patterns =
     [''error'', ''warning'', ''exception'', ''failed'',
      ''ERROR'', ''WARNING'', ''EXCEPTION'', ''FAILED'']"

text \<open>The loop over the patterns, left at the first one found in the line.\<close>

fun errors_loop :: "string list \<Rightarrow> analyzer \<Rightarrow> string \<Rightarrow> nat \<Rightarrow> analyzer" where
  "errors_loop [] st line n = st"
| "errors_loop (pattern # ps) st line n =
     (if re_search_ignorecase pattern line
      then st\<lparr>errors := errors st @
             [\<lparr>err_line_number = n, err_type = lower pattern, err_message = line\<rparr>]\<rparr>
      else errors_loop ps st line n)"

definition parse_errors_warnings :: "analyzer \<Rightarrow> string \<Rightarrow> nat \<Rightarrow> analyzer" where
  "parse_errors_warnings st line n = errors_loop error_patterns st line n"

subsection \<open>\<^verbatim>\<open>parse_log\<close>\<close>

text \<open>The body of the loop for one stripped, non-empty line.\<close>

definition parse_line :: "analyzer \<Rightarrow> string \<Rightarrow> nat \<Rightarrow> error + analyzer" where
  "parse_line st line n =
     (case parse_stats_line (parse_mcu_info st line n) line n of
        Inl e \<Rightarrow> Inl e
      | Inr st2 \<Rightarrow> Inr (parse_errors_warnings (fst (parse_config_section st2 line n)) line n))"

fun parse_lines :: "analyzer \<Rightarrow> nat \<Rightarrow> string list \<Rightarrow> error + analyzer" where
  "parse_lines st line_number [] = Inr st"
| "parse_lines st line_number (l # ls) =
     (let line_number' = line_number + 1; line = strip l
      in if line = [] then parse_lines st line_number' ls
         else case parse_line st line line_number' of
                Inl e \<Rightarrow> Inl e
              | Inr st' \<Rightarrow> parse_lines st' line_number' ls)"

text \<open>The file is the list of its lines, as iteration over the file object yields them.\<close>

definition parse_log :: "string list \<Rightarrow> error + analyzer" where
  "parse_log file = parse_lines init 0 file"

subsection \<open>Float arithmetic\<close>

text \<open>
  The operations of binary64 on exact values, with the rules for the infinities and NaN;
  the sign of zero is not kept. Division is numpy's: a non-zero number over zero is an
  infinity (with a warning, no exception), zero over zero is NaN.
\<close>

fun fadd :: "pyfloat \<Rightarrow> pyfloat \<Rightarrow> pyfloat" where
  "fadd NaN y = NaN"
| "fadd x NaN = NaN"
| "fadd (Fin a) (Fin b) = Fin (a + b)"
| "fadd PInf NInf = NaN"
| "fadd NInf PInf = NaN"
| "fadd PInf y = PInf"
| "fadd NInf y = NInf"
| "fadd (Fin a) y = y"

definition fsub :: "pyfloat \<Rightarrow> pyfloat \<Rightarrow> pyfloat" where
  "fsub x y = fadd x (fneg y)"

fun fless :: "pyfloat \<Rightarrow> pyfloat \<Rightarrow> bool" where
  "fless NaN y = False"
| "fless x NaN = False"
| "fless (Fin a) (Fin b) = (a < b)"
| "fless NInf NInf = False"
| "fless NInf y = True"
| "fless x NInf = False"
| "fless PInf y = False"
| "fless (Fin a) PInf = True"

fun fdiv :: "pyfloat \<Rightarrow> pyfloat \<Rightarrow> pyfloat" where
  "fdiv NaN y = NaN"
| "fdiv x NaN = NaN"
| "fdiv (Fin a) (Fin b) =
     (if b \<noteq> 0 then Fin (a / b) else if 0 < a then PInf else if a < 0 then NInf else NaN)"
| "fdiv (Fin a) y = Fin 0"
| "fdiv x (Fin b) = (if (x = PInf) = (0 \<le> b) then PInf else NInf)"
| "fdiv x y = NaN"

subsection \<open>The table of snapshots\<close>

text \<open>
  \<^verbatim>\<open>pd.DataFrame(self.stats_data)\<close>: one row for each snapshot, one column for each key
  that occurs, in the order of first occurrence. A cell is missing where the snapshot has
  no such key, or has NaN there.
\<close>

definition df_columns :: "snapshot list \<Rightarrow> string list" where
  "df_columns df = rev (remdups (rev (concat (map dict_keys df))))"

text \<open>\<^verbatim>\<open>df[col].dropna()\<close>: the values of a column that are not missing, in row order.\<close>

definition dropna :: "snapshot list \<Rightarrow> string \<Rightarrow> pyval list" where
  "dropna df col =
     concat (map (\<lambda>row. case dict_get row col of
                           None \<Rightarrow> []
                         | Some v \<Rightarrow> if v = PFloat NaN then [] else [v]) df)"

definition as_number :: "pyval \<Rightarrow> pyfloat option" where
  "as_number v = (case v of PFloat x \<Rightarrow> Some x | PInt i \<Rightarrow> Some (Fin (of_int i)) | PStr t \<Rightarrow> None)"

text \<open>A series is numeric when it holds no text.\<close>

fun numeric :: "pyval list \<Rightarrow> error + pyfloat list" where
  "numeric [] = Inr []"
| "numeric (v # vs) =
     (case as_number v of
        None \<Rightarrow> Inl ColumnError
      | Some x \<Rightarrow> (case numeric vs of Inl e \<Rightarrow> Inl e | Inr xs \<Rightarrow> Inr (x # xs)))"

text \<open>Maximum, minimum and mean of the values that are not missing; NaN when there is none.\<close>

definition series_max :: "pyfloat list \<Rightarrow> pyfloat" where
  "series_max xs = (case xs of [] \<Rightarrow> NaN | x # r \<Rightarrow> foldl (\<lambda>a b. if fless a b then b else a) x r)"

definition series_min :: "pyfloat list \<Rightarrow> pyfloat" where
  "series_min xs = (case xs of [] \<Rightarrow> NaN | x # r \<Rightarrow> foldl (\<lambda>a b. if fless b a then b else a) x r)"

definition series_mean :: "pyfloat list \<Rightarrow> pyfloat" where
  "series_mean xs =
     (if xs = [] then NaN else fdiv (foldl fadd (Fin 0) xs) (Fin (of_nat (length xs))))"

subsection \<open>\<^verbatim>\<open>generate_performance_report\<close>\<close>

text \<open>
  The report is the nested dictionary of the source. Two entries are left out: the
  standard deviations (\<^verbatim>\<open>std\<close>, \<^verbatim>\<open>temp_stability\<close>), which need a square root, are
  computed after the mean of the same series and raise only where the mean does.
\<close>

record perf_report =
  summary :: "(string, pyval) dict"
  rep_performance_metrics :: "(string, (string, pyval) dict) dict"
  temperature_analysis :: "(string, (string, pyval) dict) dict"
  mcu_analysis :: "(string, (string, (string, pyval) dict) dict) dict"
  communication_stats :: "(string, pyval) dict"

datatype perf_result = ErrorDict string | ReportDict perf_report

text \<open>\<^verbatim>\<open>df['timestamp'].max()\<close> and \<^verbatim>\<open>df['timestamp'].min()\<close>.\<close>

definition timestamp_max_min :: "snapshot list \<Rightarrow> error + pyfloat \<times> pyfloat" where
  "timestamp_max_min df =
     (case numeric (dropna df ''timestamp'') of
        Inl e \<Rightarrow> Inl e
      | Inr ts \<Rightarrow> Inr (series_max ts, series_min ts))"

definition report_summary :: "snapshot list \<Rightarrow> error + (string, pyval) dict" where
  "report_summary df =
     (if 1 < length df
      then (case timestamp_max_min df of
              Inl e \<Rightarrow> Inl e
            | Inr (mx, mn) \<Rightarrow>
                Inr [(''total_runtime'', PFloat (fsub mx mn)),
                     (''total_stats_entries'', PInt (int (length df))),
                     (''stats_frequency'',
                        if fless mn mx then PFloat (fdiv (Fin (of_nat (length df))) (fsub mx mn))
                        else PInt 0)])
      else Inr [(''total_runtime'', PInt 0),
                (''total_stats_entries'', PInt (int (length df))),
                (''stats_frequency'', PInt 0)])"

text \<open>
  The conditional expression of the trend, on a series with at least one value:
  \<^verbatim>\<open>'increasing' if values.iloc[-1] > values.iloc[0] else 'decreasing' if len(values) > 1 else 'stable'\<close>.
\<close>

definition trend :: "pyfloat list \<Rightarrow> string" where
  "trend values =
     (if fless (hd values) (last values) then ''increasing''
      else if 1 < length values then ''decreasing''
      else ''stable'')"

definition metric_entry :: "pyval list \<Rightarrow> error + (string, pyval) dict" where
  "metric_entry values =
     (case numeric values of
        Inl e \<Rightarrow> Inl e
      | Inr xs \<Rightarrow>
          Inr [(''mean'', PFloat (series_mean xs)),
               (''min'', PFloat (series_min xs)),
               (''max'', PFloat (series_max xs)),
               (''trend'', PStr (trend xs))])"

fun metrics_loop ::
  "string list \<Rightarrow> snapshot list \<Rightarrow> (string, (string, pyval) dict) dict \<Rightarrow>
   error + (string, (string, pyval) dict) dict" where
  "metrics_loop [] df acc = Inr acc"
| "metrics_loop (metric # ms) df acc =
     (if metric \<in> set (df_columns df) \<and> 0 < length (dropna df metric)
      then (case metric_entry (dropna df metric) of
              Inl e \<Rightarrow> Inl e
            | Inr entry \<Rightarrow> metrics_loop ms df (dict_set metric entry acc))
      else metrics_loop ms df acc)"

definition temp_entry :: "pyval list \<Rightarrow> error + (string, pyval) dict" where
  "temp_entry temps =
     (case numeric temps of
        Inl e \<Rightarrow> Inl e
      | Inr xs \<Rightarrow>
          Inr [(''min_temp'', PFloat (series_min xs)),
               (''max_temp'', PFloat (series_max xs)),
               (''avg_temp'', PFloat (series_mean xs))])"

fun temperature_loop ::
  "string list \<Rightarrow> snapshot list \<Rightarrow> (string, (string, pyval) dict) dict \<Rightarrow>
   error + (string, (string, pyval) dict) dict" where
  "temperature_loop [] df acc = Inr acc"
| "temperature_loop (temp_col # cols) df acc =
     (if 0 < length (dropna df temp_col)
      then (case temp_entry (dropna df temp_col) of
              Inl e \<Rightarrow> Inl e
            | Inr entry \<Rightarrow>
                temperature_loop cols df (dict_set (remove_all ''_temp'' temp_col) entry acc))
      else temperature_loop cols df acc)"

definition temp_columns :: "snapshot list \<Rightarrow> string list" where
  "temp_columns df = filter (\<lambda>col. endswith col ''_temp'') (df_columns df)"

text \<open>A column whose dtype is not numeric is passed over, without an exception.\<close>

fun mcu_data_loop ::
  "string list \<Rightarrow> snapshot list \<Rightarrow> (string, (string, pyval) dict) dict \<Rightarrow>
   (string, (string, pyval) dict) dict" where
  "mcu_data_loop [] df acc = acc"
| "mcu_data_loop (key # keys) df acc =
     (case numeric (dropna df key) of
        Inl e \<Rightarrow> mcu_data_loop keys df acc
      | Inr xs \<Rightarrow>
          if 0 < length xs
          then mcu_data_loop keys df
                 (dict_set key
                    [(''mean'', PFloat (series_mean xs)),
                     (''max'', PFloat (series_max xs)),
                     (''min'', PFloat (series_min xs))] acc)
          else mcu_data_loop keys df acc)"

fun mcu_loop ::
  "string list \<Rightarrow> snapshot list \<Rightarrow> (string, (string, (string, pyval) dict) dict) dict \<Rightarrow>
   (string, (string, (string, pyval) dict) dict) dict" where
  "mcu_loop [] df acc = acc"
| "mcu_loop (mcu_prefix # ps) df acc =
     (let mcu_keys =
        filter (\<lambda>col. startswith col (mcu_prefix @ ''_'') \<or> startswith col (''canstat_'' @ mcu_prefix))
          (df_columns df)
      in if mcu_keys \<noteq> []
         then mcu_loop ps df (dict_set mcu_prefix (mcu_data_loop mcu_keys df []) acc)
         else mcu_loop ps df acc)"

definition generate_performance_report :: "analyzer \<Rightarrow> error + perf_result" where
  "generate_performance_report st =
     (if stats_data st = [] then Inr (ErrorDict ''No statistics data found in log'')
      else
        let df = stats_data st in
        case report_summary df of
          Inl e \<Rightarrow> Inl e
        | Inr sm \<Rightarrow>
            (case metrics_loop metric_names df [] of
               Inl e \<Rightarrow> Inl e
             | Inr pm \<Rightarrow>
                 (case temperature_loop (temp_columns df) df [] of
                    Inl e \<Rightarrow> Inl e
                  | Inr ta \<Rightarrow>
                      Inr (ReportDict
                        \<lparr>summary = sm, rep_performance_metrics = pm, temperature_analysis = ta,
                         mcu_analysis = mcu_loop [''mcu'', ''EBBCan''] df [],
                         communication_stats = []\<rparr>))))"

subsection \<open>\<^verbatim>\<open>generate_health_report\<close>\<close>

text \<open>
  The report is the list \<^verbatim>\<open>report_lines\<close> before it is joined. A line is the text of
  its format string (without the pictographs and bullets that decorate it) and the values
  put into it; how a number is printed is not part of the embedding. The last line carries
  the time of the run, which is left out.
\<close>

type_synonym report_line = "string \<times> pyval list"

definition mcu_section :: "analyzer \<Rightarrow> report_line list" where
  "mcu_section st =
     (''MCU INFORMATION:'', []) #
     concat (map (\<lambda>(mcu_name, info).
        [(''  {mcu_name}:'', [PStr mcu_name]),
         (''    - Commands: {}'', [PInt (int (commands info))]),
         (''    - Moves: {}'', [case moves info of None \<Rightarrow> PStr ''N/A'' | Some m \<Rightarrow> PInt (int m)]),
         (''    - Version: {}...'', [PStr (take 50 (version_info info))])]) (mcu_configs st))"

definition sysload_lines :: "snapshot list \<Rightarrow> error + report_line list" where
  "sysload_lines df =
     (if ''sysload'' \<in> set (df_columns df)
      then (case numeric (dropna df ''sysload'') of
              Inl e \<Rightarrow> Inl e
            | Inr xs \<Rightarrow>
                Inr ((''  System load: avg={:.2f}, max={:.2f}'',
                        [PFloat (series_mean xs), PFloat (series_max xs)]) #
                     (if fless (Fin 1) (series_max xs)
                      then [(''    High system load detected!'', [])] else [])))
      else Inr [])"

definition memavail_lines :: "snapshot list \<Rightarrow> error + report_line list" where
  "memavail_lines df =
     (if ''memavail'' \<in> set (df_columns df)
      then (case numeric (dropna df ''memavail'') of
              Inl e \<Rightarrow> Inl e
            | Inr xs \<Rightarrow>
                Inr ((''  Memory: min={:.1f}MB, avg={:.1f}MB'',
                        [PFloat (fdiv (series_min xs) (Fin 1024)),
                         PFloat (fdiv (series_mean xs) (Fin 1024))]) #
                     (if fless (series_min xs) (Fin 100000)
                      then [(''    Low memory detected!'', [])] else [])))
      else Inr [])"

text \<open>
  The performance summary divides the number of rows by the runtime with no test of the
  runtime before it.
\<close>

definition performance_section :: "analyzer \<Rightarrow> error + report_line list" where
  "performance_section st =
     (if stats_data st \<noteq> []
      then
        let df = stats_data st in
        case timestamp_max_min df of
          Inl e \<Rightarrow> Inl e
        | Inr (mx, mn) \<Rightarrow>
            (case sysload_lines df of
               Inl e \<Rightarrow> Inl e
             | Inr sl \<Rightarrow>
                 (case memavail_lines df of
                    Inl e \<Rightarrow> Inl e
                  | Inr ml \<Rightarrow>
                      Inr ([(''PERFORMANCE SUMMARY:'', []),
                            (''  Runtime: {:.1f} seconds'', [PFloat (fsub mx mn)]),
                            (''  Stats frequency: {:.2f} Hz'',
                               [PFloat (fdiv (Fin (of_nat (length df))) (fsub mx mn))])]
                           @ sl @ ml)))
      else Inr [])"

text \<open>\<^verbatim>\<open>Counter(...)\<close>: the count of each type, in the order of first occurrence.\<close>

fun counter :: "string list \<Rightarrow> (string, nat) dict \<Rightarrow> (string, nat) dict" where
  "counter [] d = d"
| "counter (t # ts) d =
     counter ts (dict_set t (Suc (case dict_get d t of None \<Rightarrow> 0 | Some c \<Rightarrow> c)) d)"

definition error_section :: "analyzer \<Rightarrow> report_line list" where
  "error_section st =
     (''ERROR ANALYSIS:'', []) #
     (if errors st \<noteq> []
      then map (\<lambda>(error_type, count). (''  {error_type}: {count} occurrences'',
                  [PStr error_type, PInt (int count)]))
             (counter (map err_type (errors st)) [])
           @ [(''Recent errors:'', [])]
           @ map (\<lambda>e. (''  Line {}: {}...'',
                  [PInt (int (err_line_number e)), PStr (take 80 (err_message e))]))
               (drop (length (errors st) - 5) (errors st))
      else [(''  No errors detected!'', [])])"

definition max_minus_min :: "snapshot list \<Rightarrow> string \<Rightarrow> error + pyfloat" where
  "max_minus_min df col =
     (case numeric (dropna df col) of
        Inl e \<Rightarrow> Inl e
      | Inr xs \<Rightarrow> Inr (fsub (series_max xs) (series_min xs)))"

definition communication_section :: "analyzer \<Rightarrow> error + report_line list" where
  "communication_section st =
     (if stats_data st \<noteq> []
      then
        let df = stats_data st in
        if ''rx_error'' \<in> set (df_columns df)
        then (case max_minus_min df ''rx_error'' of
                Inl e \<Rightarrow> Inl e
              | Inr total_rx_errors \<Rightarrow>
                  (case (if ''tx_error'' \<in> set (df_columns df)
                         then max_minus_min df ''tx_error'' else Inr (Fin 0)) of
                     Inl e \<Rightarrow> Inl e
                   | Inr total_tx_errors \<Rightarrow>
                       Inr [(''COMMUNICATION HEALTH:'', []),
                            (''  RX errors: {}'', [PFloat total_rx_errors]),
                            (''  TX errors: {}'',
                               [if ''tx_error'' \<in> set (df_columns df)
                                then PFloat total_tx_errors else PInt 0]),
                            (if fless (Fin 0) total_rx_errors \<or> fless (Fin 0) total_tx_errors
                             then (''    Communication errors detected!'', [])
                             else (''    No communication errors!'', []))]))
        else Inr [(''COMMUNICATION HEALTH:'', [])]
      else Inr [])"

fun temperature_lines :: "string list \<Rightarrow> snapshot list \<Rightarrow> error + report_line list" where
  "temperature_lines [] df = Inr []"
| "temperature_lines (temp_col # cols) df =
     (if 0 < length (dropna df temp_col)
      then (case numeric (dropna df temp_col) of
              Inl e \<Rightarrow> Inl e
            | Inr xs \<Rightarrow>
                (case temperature_lines cols df of
                   Inl e \<Rightarrow> Inl e
                 | Inr ls \<Rightarrow>
                     Inr ((''  {sensor_name}: min={:.1f}C, max={:.1f}C, avg={:.1f}C'',
                             [PStr (remove_all ''_temp'' temp_col), PFloat (series_min xs),
                              PFloat (series_max xs), PFloat (series_mean xs)]) #
                          (if contains ''extruder'' (remove_all ''_temp'' temp_col)
                              \<and> fless (Fin 250) (series_max xs)
                           then [(''    High extruder temperature!'', [])]
                           else if contains ''bed'' (remove_all ''_temp'' temp_col)
                              \<and> fless (Fin 100) (series_max xs)
                           then [(''    High bed temperature!'', [])]
                           else [])
                          @ ls)))
      else temperature_lines cols df)"

definition temperature_section :: "analyzer \<Rightarrow> error + report_line list" where
  "temperature_section st =
     (let cols = (if stats_data st \<noteq> [] then temp_columns (stats_data st) else [])
      in if cols \<noteq> []
         then (case temperature_lines cols (stats_data st) of
                 Inl e \<Rightarrow> Inl e
               | Inr ls \<Rightarrow> Inr ((''TEMPERATURE ANALYSIS:'', []) # ls))
         else Inr [])"

text \<open>
  The list \<^verbatim>\<open>recommendations\<close>: the four rules stand inside \<^verbatim>\<open>if self.stats_data:\<close>, and
  the line for a healthy system is added when the list is still empty after it.
\<close>

definition sysload_rule :: "snapshot list \<Rightarrow> error + string list" where
  "sysload_rule df =
     (if ''sysload'' \<in> set (df_columns df)
      then (case numeric (dropna df ''sysload'') of
              Inl e \<Rightarrow> Inl e
            | Inr xs \<Rightarrow>
                Inr (if fless (Fin (4 / 5)) (series_mean xs)
                     then [''Consider reducing print complexity or upgrading hardware'']
                     else []))
      else Inr [])"

definition memavail_rule :: "snapshot list \<Rightarrow> error + string list" where
  "memavail_rule df =
     (if ''memavail'' \<in> set (df_columns df)
      then (case numeric (dropna df ''memavail'') of
              Inl e \<Rightarrow> Inl e
            | Inr xs \<Rightarrow>
                Inr (if fless (series_min xs) (Fin 200000)
                     then [''Monitor memory usage - consider closing unnecessary processes'']
                     else []))
      else Inr [])"

definition errors_rule :: "analyzer \<Rightarrow> string list" where
  "errors_rule st =
     (if 10 < length (errors st)
      then [''High error count detected - review printer configuration'']
      else [])"

definition rx_error_rule :: "snapshot list \<Rightarrow> error + string list" where
  "rx_error_rule df =
     (if ''rx_error'' \<in> set (df_columns df)
      then (case max_minus_min df ''rx_error'' of
              Inl e \<Rightarrow> Inl e
            | Inr total_rx \<Rightarrow>
                Inr (if fless (Fin 5) total_rx
                     then [''Communication errors detected - check cables and connections'']
                     else []))
      else Inr [])"

definition recommendations :: "analyzer \<Rightarrow> error + string list" where
  "recommendations st =
     (case (if stats_data st \<noteq> []
            then (case sysload_rule (stats_data st) of
                    Inl e \<Rightarrow> Inl e
                  | Inr r1 \<Rightarrow>
                      (case memavail_rule (stats_data st) of
                         Inl e \<Rightarrow> Inl e
                       | Inr r2 \<Rightarrow>
                           (case rx_error_rule (stats_data st) of
                              Inl e \<Rightarrow> Inl e
                            | Inr r4 \<Rightarrow> Inr (r1 @ r2 @ errors_rule st @ r4))))
            else Inr []) of
        Inl e \<Rightarrow> Inl e
      | Inr recs \<Rightarrow>
          Inr (if recs = [] then [''System appears healthy - no immediate concerns''] else recs))"

text \<open>\<^verbatim>\<open>enumerate(recommendations, 1)\<close>.\<close>

fun numbered :: "nat \<Rightarrow> string list \<Rightarrow> report_line list" where
  "numbered i [] = []"
| "numbered i (rec # recs) = (''  {i}. {rec}'', [PInt (int i), PStr rec]) # numbered (Suc i) recs"

definition generate_health_report :: "analyzer \<Rightarrow> error + report_line list" where
  "generate_health_report st =
     (case performance_section st of
        Inl e \<Rightarrow> Inl e
      | Inr perf \<Rightarrow>
          (case communication_section st of
             Inl e \<Rightarrow> Inl e
           | Inr comm \<Rightarrow>
               (case temperature_section st of
                  Inl e \<Rightarrow> Inl e
                | Inr temp \<Rightarrow>
                    (case recommendations st of
                       Inl e \<Rightarrow> Inl e
                     | Inr recs \<Rightarrow>
                         Inr ([(''KLIPPER LOG HEALTH REPORT'', []),
                               (''=================================================='', [])]
                              @ mcu_section st @ perf @ error_section st @ comm @ temp
                              @ [(''RECOMMENDATIONS:'', [])] @ numbered 1 recs
                              @ [(''Report generated: {}'', [])])))))"

subsection \<open>Notions of the specification\<close>

text \<open>
  The four keywords in the priority order the specification gives them. They are the first
  four of \<open>error_patterns\<close>; the specification speaks of the earliest of them that the
  line holds, whatever the letter case.
\<close>

definition error_keywords :: "string list" where
  "error_keywords = [''error'', ''warning'', ''exception'', ''failed'']"

text \<open>
  The number of the last line of a file that is the section header of \<open>name\<close>, counting
  from \<open>line_number + 1\<close>.
\<close>

fun last_declaration :: "nat \<Rightarrow> string list \<Rightarrow> string \<Rightarrow> nat option" where
  "last_declaration line_number [] name = None"
| "last_declaration line_number (l # ls) name =
     (case last_declaration (line_number + 1) ls name of
        Some n \<Rightarrow> Some n
      | None \<Rightarrow> if match_config_section (strip l) = Some name then Some (line_number + 1) else None)"

text \<open>
  The recommendations a health report shows: the texts of its numbered lines, in order.
\<close>

definition report_recommendations :: "report_line list \<Rightarrow> string list" where
  "report_recommendations r =
     concat (map (\<lambda>(t, args).
        if t = ''  {i}. {rec}'' then (case args of [i, PStr rec] \<Rightarrow> [rec] | _ \<Rightarrow> []) else []) r)"

section \<open>Properties\<close>

subsection \<open>Dictionaries and strings\<close>

lemma dict_get_dict_set:
  "dict_get (dict_set k v d) k' = (if k' = k then Some v else dict_get d k')"
  by (induction d) (auto simp: dict_get_def)

lemma dict_keys_dict_set_present:
  "dict_get d k = Some w \<Longrightarrow> dict_keys (dict_set k v d) = dict_keys d"
  by (induction d) (auto simp: dict_get_def dict_keys_def split: if_splits)

lemma startswith_map: "startswith s p \<Longrightarrow> startswith (map f s) (map f p)"
  by (induction s p rule: startswith.induct) auto

lemma contains_map: "contains p s \<Longrightarrow> contains (map f p) (map f s)"
proof (induction s)
  case Nil
  then show ?case by simp
next
  case (Cons c cs)
  then show ?case using startswith_map [of "c # cs" p f] by auto
qed

lemma strip_prefix_Cons: "strip_prefix (p # ps) s = Some r \<Longrightarrow> \<exists>cs. s = p # cs"
  by (cases s) (auto split: if_splits)

lemma lower_patterns:
  "lower ''error'' = ''error''" "lower ''warning'' = ''warning''"
  "lower ''exception'' = ''exception''" "lower ''failed'' = ''failed''"
  "lower ''ERROR'' = ''error''" "lower ''WARNING'' = ''warning''"
  "lower ''EXCEPTION'' = ''exception''" "lower ''FAILED'' = ''failed''"
  by code_simp+

lemma contains_lower_error: "contains ''error'' line \<Longrightarrow> contains ''error'' (lower line)"
  using contains_map [of "''error''" line lower_char] lower_patterns(1)
  by (simp add: lower_def)

subsection \<open>The three MCU patterns exclude one another\<close>

lemma match_mcu_load_head: "match_mcu_load line = Some x \<Longrightarrow> \<exists>cs. line = CHR ''L'' # cs"
  by (auto simp: match_mcu_load_def split: option.splits dest: strip_prefix_Cons)

lemma match_mcu_config_head: "match_mcu_config line = Some x \<Longrightarrow> \<exists>cs. line = CHR ''M'' # cs"
  by (auto simp: match_mcu_config_def split: option.splits dest: strip_prefix_Cons)

lemma match_mcu_configured_head:
  "match_mcu_configured line = Some x \<Longrightarrow> \<exists>cs. line = CHR ''C'' # cs"
  by (auto simp: match_mcu_configured_def split: option.splits dest: strip_prefix_Cons)

lemma config_excludes:
  assumes "match_mcu_config line = Some x"
  shows "match_mcu_load line = None" "match_mcu_configured line = None"
proof -
  from assms obtain cs where l: "line = CHR ''M'' # cs" using match_mcu_config_head by blast
  show "match_mcu_load line = None"
    using match_mcu_load_head [of line] l by (cases "match_mcu_load line") auto
  show "match_mcu_configured line = None"
    using match_mcu_configured_head [of line] l by (cases "match_mcu_configured line") auto
qed

lemma configured_excludes:
  assumes "match_mcu_configured line = Some x"
  shows "match_mcu_load line = None" "match_mcu_config line = None"
proof -
  from assms obtain cs where l: "line = CHR ''C'' # cs" using match_mcu_configured_head by blast
  show "match_mcu_load line = None"
    using match_mcu_load_head [of line] l by (cases "match_mcu_load line") auto
  show "match_mcu_config line = None"
    using match_mcu_config_head [of line] l by (cases "match_mcu_config line") auto
qed

subsection \<open>What each parser leaves alone\<close>

lemma errors_parse_mcu_info: "errors (parse_mcu_info st line n) = errors st"
  by (simp add: parse_mcu_info_def Let_def split: option.splits prod.splits)

lemma errors_parse_stats_line: "parse_stats_line st line n = Inr st' \<Longrightarrow> errors st' = errors st"
  by (auto simp: parse_stats_line_def split: option.splits prod.splits sum.splits)

lemma errors_parse_config_section: "errors (fst (parse_config_section st line n)) = errors st"
  by (simp add: parse_config_section_def split: option.splits)

lemma mcu_configs_parse_stats_line:
  "parse_stats_line st line n = Inr st' \<Longrightarrow> mcu_configs st' = mcu_configs st"
  by (auto simp: parse_stats_line_def split: option.splits prod.splits sum.splits)

lemma mcu_configs_parse_config_section:
  "mcu_configs (fst (parse_config_section st line n)) = mcu_configs st"
  by (simp add: parse_config_section_def split: option.splits)

lemma mcu_configs_errors_loop: "mcu_configs (errors_loop ps st line n) = mcu_configs st"
  by (induction ps) auto

lemma stats_data_parse_mcu_info: "stats_data (parse_mcu_info st line n) = stats_data st"
  by (simp add: parse_mcu_info_def Let_def split: option.splits prod.splits)

lemma stats_data_parse_config_section:
  "stats_data (fst (parse_config_section st line n)) = stats_data st"
  by (simp add: parse_config_section_def split: option.splits)

lemma stats_data_errors_loop: "stats_data (errors_loop ps st line n) = stats_data st"
  by (induction ps) auto

lemma config_sections_parse_mcu_info:
  "config_sections (parse_mcu_info st line n) = config_sections st"
  by (simp add: parse_mcu_info_def Let_def split: option.splits prod.splits)

lemma config_sections_parse_stats_line:
  "parse_stats_line st line n = Inr st' \<Longrightarrow> config_sections st' = config_sections st"
  by (auto simp: parse_stats_line_def split: option.splits prod.splits sum.splits)

lemma config_sections_errors_loop:
  "config_sections (errors_loop ps st line n) = config_sections st"
  by (induction ps) auto

subsection \<open>The error scan\<close>

lemma errors_loop_find:
  "errors_loop ps st line n =
     (case find (\<lambda>p. re_search_ignorecase p line) ps of
        None \<Rightarrow> st
      | Some p \<Rightarrow> st\<lparr>errors := errors st @
             [\<lparr>err_line_number = n, err_type = lower p, err_message = line\<rparr>]\<rparr>)"
  by (induction ps) auto

lemma parse_errors_warnings_keyword:
  assumes "find (\<lambda>k. contains k (lower line)) error_keywords = Some k"
  shows "parse_errors_warnings st line n =
           st\<lparr>errors := errors st @
             [\<lparr>err_line_number = n, err_type = k, err_message = line\<rparr>]\<rparr>"
  using assms
  by (auto simp: parse_errors_warnings_def errors_loop_find error_patterns_def error_keywords_def
      re_search_ignorecase_def lower_patterns split: if_splits)

lemma errors_parse_line:
  assumes "parse_line st line n = Inr st'"
  shows "\<exists>st2. errors st2 = errors st \<and> st' = parse_errors_warnings st2 line n"
proof -
  from assms obtain st1 where
    s: "parse_stats_line (parse_mcu_info st line n) line n = Inr st1"
    and e: "st' = parse_errors_warnings (fst (parse_config_section st1 line n)) line n"
    by (auto simp: parse_line_def split: sum.splits)
  have "errors (fst (parse_config_section st1 line n)) = errors st"
    using errors_parse_stats_line [OF s]
    by (simp add: errors_parse_config_section errors_parse_mcu_info)
  with e show ?thesis by blast
qed

text \<open>
  C6. A line that holds one or more of the keywords error, warning, exception, failed, in
  any letter case, gets exactly one error entry, and its type is the earliest of those
  keywords in the priority order: from the error scan alone, and from the whole treatment
  of the line when that returns.
\<close>

theorem first_keyword_wins:
  assumes "find (\<lambda>k. contains k (lower line)) error_keywords = Some k"
  shows "errors (parse_errors_warnings st line n) =
           errors st @ [\<lparr>err_line_number = n, err_type = k, err_message = line\<rparr>]
         \<and> (\<forall>st'. parse_line st line n = Inr st' \<longrightarrow>
              errors st' = errors st @ [\<lparr>err_line_number = n, err_type = k, err_message = line\<rparr>])"
proof (intro conjI allI impI)
  show "errors (parse_errors_warnings st line n) =
          errors st @ [\<lparr>err_line_number = n, err_type = k, err_message = line\<rparr>]"
    by (simp add: parse_errors_warnings_keyword [OF assms])
next
  fix st' assume "parse_line st line n = Inr st'"
  then obtain st2 where "errors st2 = errors st" "st' = parse_errors_warnings st2 line n"
    using errors_parse_line by blast
  then show "errors st' = errors st @ [\<lparr>err_line_number = n, err_type = k, err_message = line\<rparr>]"
    by (simp add: parse_errors_warnings_keyword [OF assms])
qed

theorem first_keyword_wins_witness:
  "find (\<lambda>k. contains k (lower ''Error and warning'')) error_keywords = Some ''error''
   \<and> errors (parse_errors_warnings init ''Error and warning'' 7) =
       [\<lparr>err_line_number = 7, err_type = ''error'', err_message = ''Error and warning''\<rparr>]
   \<and> (case parse_line init ''Error and warning'' 7 of
         Inl e \<Rightarrow> False
       | Inr st' \<Rightarrow> errors st' =
           [\<lparr>err_line_number = 7, err_type = ''error'', err_message = ''Error and warning''\<rparr>])"
proof -
  have h: "find (\<lambda>k. contains k (lower ''Error and warning'')) error_keywords = Some ''error''"
    by code_simp
  have p: "parse_line init ''Error and warning'' 7 =
             Inr (init\<lparr>errors :=
               [\<lparr>err_line_number = 7, err_type = ''error'', err_message = ''Error and warning''\<rparr>]\<rparr>)"
    by code_simp
  have e: "errors init = []" by (simp add: init_def)
  show ?thesis
    using first_keyword_wins [OF h, of init 7] h p e by simp
qed

subsection \<open>MCU descriptors\<close>

lemma mcu_configs_parse_line:
  "parse_line st line n = Inr st' \<Longrightarrow> mcu_configs st' = mcu_configs (parse_mcu_info st line n)"
  by (auto simp: parse_line_def parse_errors_warnings_def mcu_configs_errors_loop
      mcu_configs_parse_config_section split: sum.splits dest: mcu_configs_parse_stats_line)

text \<open>
  C7. A line \<^verbatim>\<open>MCU 'X' config: ...\<close> or \<^verbatim>\<open>Configured MCU 'X' (N moves)\<close> whose name has
  no descriptor changes nothing: the analyser is the same after \<^verbatim>\<open>_parse_mcu_info\<close>, the
  MCU collection is the same after the whole treatment of the line, and whatever a later
  line does to the collection, it does as if the earlier line had not been there.
\<close>

theorem unknown_mcu_update_dropped:
  assumes "match_mcu_config line = Some (x, c) \<or> match_mcu_configured line = Some (x, m)"
    and "dict_get (mcu_configs st) x = None"
  shows "parse_mcu_info st line n = st
         \<and> (\<forall>st'. parse_line st line n = Inr st' \<longrightarrow> mcu_configs st' = mcu_configs st)
         \<and> (\<forall>l2 n2. parse_mcu_info (parse_mcu_info st line n) l2 n2 = parse_mcu_info st l2 n2)"
proof -
  have same: "parse_mcu_info st line n = st"
    using assms(1)
  proof
    assume a: "match_mcu_config line = Some (x, c)"
    show ?thesis
      using assms(2) by (simp add: parse_mcu_info_def a config_excludes [OF a])
  next
    assume a: "match_mcu_configured line = Some (x, m)"
    show ?thesis
      using assms(2) by (simp add: parse_mcu_info_def a configured_excludes [OF a])
  qed
  then show ?thesis
    by (auto dest: mcu_configs_parse_line)
qed


theorem unknown_mcu_update_dropped_witness:
  "match_mcu_config (''MCU '' @ squote @ ''mcu'' @ squote @ '' config: ADC_MAX=4095'')
     = Some (''mcu'', ''ADC_MAX=4095'')
   \<and> match_mcu_configured (''Configured MCU '' @ squote @ ''mcu'' @ squote @ '' (1024 moves)'')
     = Some (''mcu'', ''1024'')
   \<and> dict_get (mcu_configs init) ''mcu'' = None
   \<and> parse_mcu_info init (''MCU '' @ squote @ ''mcu'' @ squote @ '' config: ADC_MAX=4095'') 1 = init
   \<and> parse_mcu_info init (''Configured MCU '' @ squote @ ''mcu'' @ squote @ '' (1024 moves)'') 2 = init
   \<and> parse_line init (''MCU '' @ squote @ ''mcu'' @ squote @ '' config: ADC_MAX=4095'') 1 = Inr init
   \<and> mcu_configs
        (parse_mcu_info
          (parse_mcu_info init (''MCU '' @ squote @ ''mcu'' @ squote @ '' config: ADC_MAX=4095'') 1)
          (''Loaded MCU '' @ squote @ ''mcu'' @ squote @ '' 945 commands (v0.11.0)'') 2)
       = [(''mcu'', \<lparr>commands = 945, version_info = ''v0.11.0'', mcu_line_number = 2,
                      config = None, moves = None\<rparr>)]"
proof -
  have a: "match_mcu_config (''MCU '' @ squote @ ''mcu'' @ squote @ '' config: ADC_MAX=4095'')
             = Some (''mcu'', ''ADC_MAX=4095'')"
    by code_simp
  have b: "match_mcu_configured (''Configured MCU '' @ squote @ ''mcu'' @ squote @ '' (1024 moves)'')
             = Some (''mcu'', ''1024'')"
    by code_simp
  have g: "dict_get (mcu_configs init) ''mcu'' = None"
    by (simp add: init_def dict_get_def)
  have p: "parse_line init (''MCU '' @ squote @ ''mcu'' @ squote @ '' config: ADC_MAX=4095'') 1 = Inr init"
    by code_simp
  have l: "mcu_configs (parse_mcu_info init
             (''Loaded MCU '' @ squote @ ''mcu'' @ squote @ '' 945 commands (v0.11.0)'') 2)
           = [(''mcu'', \<lparr>commands = 945, version_info = ''v0.11.0'', mcu_line_number = 2,
                      config = None, moves = None\<rparr>)]"
    by code_simp
  from unknown_mcu_update_dropped [OF disjI1 [OF a] g, of 1]
       unknown_mcu_update_dropped [OF disjI2 [OF b] g, of 2]
  show ?thesis using a b g p l by simp
qed

text \<open>
  C10. When \<open>X\<close> has a descriptor, a config line for \<open>X\<close> replaces its \<open>config\<close> field and
  nothing else, and a configured line replaces its \<open>moves\<close> field and nothing else: the
  descriptor keeps its command count, version info and line number, every other name keeps
  its descriptor, and the names and their order stay as they were.
\<close>

theorem mcu_update_frame:
  assumes "dict_get (mcu_configs st) x = Some d"
  shows "(match_mcu_config line = Some (x, c) \<longrightarrow>
            parse_mcu_info st line n =
              st\<lparr>mcu_configs := dict_set x (d\<lparr>config := Some c\<rparr>) (mcu_configs st)\<rparr>
            \<and> dict_get (mcu_configs (parse_mcu_info st line n)) x = Some (d\<lparr>config := Some c\<rparr>))
         \<and> (match_mcu_configured line = Some (x, m) \<longrightarrow>
            parse_mcu_info st line n =
              st\<lparr>mcu_configs := dict_set x (d\<lparr>moves := Some (nat_of_digits m)\<rparr>) (mcu_configs st)\<rparr>
            \<and> dict_get (mcu_configs (parse_mcu_info st line n)) x
                = Some (d\<lparr>moves := Some (nat_of_digits m)\<rparr>))
         \<and> (match_mcu_config line = Some (x, c) \<or> match_mcu_configured line = Some (x, m) \<longrightarrow>
            (\<forall>y. y \<noteq> x \<longrightarrow>
               dict_get (mcu_configs (parse_mcu_info st line n)) y = dict_get (mcu_configs st) y)
            \<and> dict_keys (mcu_configs (parse_mcu_info st line n)) = dict_keys (mcu_configs st))"
proof -
  have c1: "parse_mcu_info st line n =
              st\<lparr>mcu_configs := dict_set x (d\<lparr>config := Some c\<rparr>) (mcu_configs st)\<rparr>"
    if a: "match_mcu_config line = Some (x, c)"
    using assms by (simp add: parse_mcu_info_def a config_excludes [OF a])
  have c2: "parse_mcu_info st line n =
              st\<lparr>mcu_configs := dict_set x (d\<lparr>moves := Some (nat_of_digits m)\<rparr>) (mcu_configs st)\<rparr>"
    if a: "match_mcu_configured line = Some (x, m)"
    using assms by (simp add: parse_mcu_info_def a configured_excludes [OF a])
  show ?thesis
    using c1 c2 assms
    by (auto simp: dict_get_dict_set dict_keys_dict_set_present)
qed

theorem mcu_update_frame_witness:
  "(let st = init\<lparr>mcu_configs :=
           [(''mcu'', \<lparr>commands = 945, version_info = ''v0.11.0'', mcu_line_number = 1,
                       config = None, moves = None\<rparr>),
            (''EBBCan'', \<lparr>commands = 101, version_info = ''v0.12.0'', mcu_line_number = 2,
                       config = None, moves = None\<rparr>)]\<rparr>;
        cfg = ''MCU '' @ squote @ ''mcu'' @ squote @ '' config: ADC_MAX=4095'';
        mvs = ''Configured MCU '' @ squote @ ''mcu'' @ squote @ '' (1024 moves)''
    in match_mcu_config cfg = Some (''mcu'', ''ADC_MAX=4095'')
       \<and> match_mcu_configured mvs = Some (''mcu'', ''1024'')
       \<and> dict_get (mcu_configs (parse_mcu_info st cfg 3)) ''mcu''
           = Some \<lparr>commands = 945, version_info = ''v0.11.0'', mcu_line_number = 1,
                    config = Some ''ADC_MAX=4095'', moves = None\<rparr>
       \<and> dict_get (mcu_configs (parse_mcu_info st mvs 4)) ''mcu''
           = Some \<lparr>commands = 945, version_info = ''v0.11.0'', mcu_line_number = 1,
                    config = None, moves = Some 1024\<rparr>
       \<and> dict_get (mcu_configs (parse_mcu_info st cfg 3)) ''EBBCan''
           = dict_get (mcu_configs st) ''EBBCan''
       \<and> dict_get (mcu_configs (parse_mcu_info st mvs 4)) ''EBBCan''
           = dict_get (mcu_configs st) ''EBBCan''
       \<and> dict_keys (mcu_configs (parse_mcu_info st cfg 3)) = [''mcu'', ''EBBCan''])"
proof -
  define st where "st = init\<lparr>mcu_configs :=
           [(''mcu'', \<lparr>commands = 945, version_info = ''v0.11.0'', mcu_line_number = 1,
                       config = None, moves = None\<rparr>),
            (''EBBCan'', \<lparr>commands = 101, version_info = ''v0.12.0'', mcu_line_number = 2,
                       config = None, moves = None\<rparr>)]\<rparr>"
  define cfg where "cfg = ''MCU '' @ squote @ ''mcu'' @ squote @ '' config: ADC_MAX=4095''"
  define mvs where "mvs = ''Configured MCU '' @ squote @ ''mcu'' @ squote @ '' (1024 moves)''"
  define d where "d = \<lparr>commands = 945, version_info = ''v0.11.0'', mcu_line_number = 1,
                       config = None, moves = None :: nat option\<rparr>"
  have a: "match_mcu_config cfg = Some (''mcu'', ''ADC_MAX=4095'')"
    unfolding cfg_def by code_simp
  have b: "match_mcu_configured mvs = Some (''mcu'', ''1024'')"
    unfolding mvs_def by code_simp
  have g: "dict_get (mcu_configs st) ''mcu'' = Some d"
    by (simp add: st_def d_def dict_get_def)
  have k: "dict_keys (mcu_configs st) = [''mcu'', ''EBBCan'']"
    by (simp add: st_def dict_keys_def)
  have n: "nat_of_digits ''1024'' = 1024"
    by code_simp
  have ne: "''EBBCan'' \<noteq> ''mcu''" by simp
  from mcu_update_frame [OF g, of cfg "''ADC_MAX=4095''" 3 "''1024''"]
       mcu_update_frame [OF g, of mvs "''ADC_MAX=4095''" 4 "''1024''"] a b k n ne
  have "match_mcu_config cfg = Some (''mcu'', ''ADC_MAX=4095'')
       \<and> match_mcu_configured mvs = Some (''mcu'', ''1024'')
       \<and> dict_get (mcu_configs (parse_mcu_info st cfg 3)) ''mcu'' = Some (d\<lparr>config := Some ''ADC_MAX=4095''\<rparr>)
       \<and> dict_get (mcu_configs (parse_mcu_info st mvs 4)) ''mcu'' = Some (d\<lparr>moves := Some 1024\<rparr>)
       \<and> dict_get (mcu_configs (parse_mcu_info st cfg 3)) ''EBBCan''
           = dict_get (mcu_configs st) ''EBBCan''
       \<and> dict_get (mcu_configs (parse_mcu_info st mvs 4)) ''EBBCan''
           = dict_get (mcu_configs st) ''EBBCan''
       \<and> dict_keys (mcu_configs (parse_mcu_info st cfg 3)) = [''mcu'', ''EBBCan'']"
    by metis
  then show ?thesis
    unfolding Let_def st_def [symmetric] cfg_def [symmetric] mvs_def [symmetric]
    by (simp add: d_def)
qed

subsection \<open>Stats lines and the error scan\<close>

lemma stats_data_parse_stats_line:
  "parse_stats_line st line n = Inr st' \<Longrightarrow> match_stats line = Some m \<Longrightarrow>
   \<exists>d. stats_data st' = stats_data st @ [d]"
  by (auto simp: parse_stats_line_def split: option.splits prod.splits sum.splits)

lemma stats_data_parse_line:
  assumes "parse_line st line n = Inr st'" "match_stats line = Some m"
  shows "\<exists>d. stats_data st' = stats_data st @ [d]"
proof -
  from assms(1) obtain st2 where
    s: "parse_stats_line (parse_mcu_info st line n) line n = Inr st2"
    and e: "st' = parse_errors_warnings (fst (parse_config_section st2 line n)) line n"
    by (auto simp: parse_line_def split: sum.splits)
  from stats_data_parse_stats_line [OF s assms(2)]
  obtain d where "stats_data st2 = stats_data st @ [d]"
    by (auto simp: stats_data_parse_mcu_info)
  then show ?thesis
    by (simp add: e parse_errors_warnings_def stats_data_errors_loop stats_data_parse_config_section)
qed

lemma find_error_first:
  "contains ''error'' line \<Longrightarrow> find (\<lambda>k. contains k (lower line)) error_keywords = Some ''error''"
  by (simp add: error_keywords_def contains_lower_error)

lemma dict_get_counter:
  "dict_get (counter ts d) t =
     (if t \<in> set ts \<or> dict_get d t \<noteq> None
      then Some (count_list ts t + (case dict_get d t of None \<Rightarrow> 0 | Some c \<Rightarrow> c))
      else None)"
  by (induction ts arbitrary: d) (auto simp: dict_get_dict_set split: option.splits)

lemma dict_get_Nil: "dict_get [] k = None"
  by (simp add: dict_get_def)

lemma dict_get_in_set: "dict_get d k = Some v \<Longrightarrow> (k, v) \<in> set d"
  by (simp add: dict_get_def map_of_SomeD)

lemma error_section_counts:
  assumes "e \<in> set (errors st)"
  shows "(''  {error_type}: {count} occurrences'',
            [PStr (err_type e), PInt (int (count_list (map err_type (errors st)) (err_type e)))])
         \<in> set (error_section st)"
proof -
  have ne: "errors st \<noteq> []" using assms by auto
  have "err_type e \<in> set (map err_type (errors st))" using assms by auto
  then have "dict_get (counter (map err_type (errors st)) []) (err_type e)
               = Some (count_list (map err_type (errors st)) (err_type e))"
    by (simp add: dict_get_counter dict_get_Nil)
  from dict_get_in_set [OF this] show ?thesis
    using ne by (force simp: error_section_def)
qed

text \<open>
  When the treatment of a stats line that holds \<^verbatim>\<open>error\<close> returns, the line gives a
  snapshot and an error entry of type \<^verbatim>\<open>error\<close>, and the error analysis of the health
  report counts it.
\<close>

lemma error_entry_when_line_returns:
  assumes "match_stats line = Some m" and "contains ''error'' line"
    and "parse_line st line n = Inr st'"
  shows "errors st' = errors st @ [\<lparr>err_line_number = n, err_type = ''error'', err_message = line\<rparr>]"
    and "\<exists>d. stats_data st' = stats_data st @ [d]"
    and "(''  {error_type}: {count} occurrences'',
            [PStr ''error'', PInt (int (Suc (count_list (map err_type (errors st)) ''error'')))])
         \<in> set (error_section st')"
proof -
  from assms(3) obtain st2 where "errors st2 = errors st" "st' = parse_errors_warnings st2 line n"
    using errors_parse_line by blast
  then show e: "errors st' = errors st @ [\<lparr>err_line_number = n, err_type = ''error'', err_message = line\<rparr>]"
    by (simp add: parse_errors_warnings_keyword [OF find_error_first [OF assms(2)]])
  show "\<exists>d. stats_data st' = stats_data st @ [d]"
    using stats_data_parse_line [OF assms(3) assms(1)] by simp
  have "\<lparr>err_line_number = n, err_type = ''error'', err_message = line\<rparr> \<in> set (errors st')"
    by (simp add: e)
  from error_section_counts [OF this] show "(''  {error_type}: {count} occurrences'',
            [PStr ''error'', PInt (int (Suc (count_list (map err_type (errors st)) ''error'')))])
         \<in> set (error_section st')"
    by (simp add: e)
qed

text \<open>
  C9. The claim reads: every recognized stats line whose text holds \<^verbatim>\<open>error\<close> also gets
  an error entry of type \<^verbatim>\<open>error\<close>. The error scan is the last of the four calls for a
  line, after the stats parser; on \<^verbatim>\<open>Stats 1.0: rx_error=0 extruder: temp=1.2.3\<close>, a line
  that matches the stats pattern and holds \<^verbatim>\<open>error\<close>, the \<^verbatim>\<open>float\<close> of the temp scan
  raises \<^verbatim>\<open>ValueError\<close> before the error scan is reached: no entry is appended and
  \<^verbatim>\<open>parse_log\<close> ends with the exception.
\<close>

theorem stats_error_line_lost_when_scan_raises:
  "match_stats ''Stats 1.0: rx_error=0 extruder: temp=1.2.3''
     = Some (''1.0'', ''rx_error=0 extruder: temp=1.2.3'')
   \<and> contains ''error'' ''Stats 1.0: rx_error=0 extruder: temp=1.2.3''
   \<and> parse_line init ''Stats 1.0: rx_error=0 extruder: temp=1.2.3'' 1 = Inl ValueError
   \<and> parse_log [''Stats 1.0: rx_error=0 extruder: temp=1.2.3''] = Inl ValueError"
  by code_simp

subsection \<open>Config sections\<close>

lemma config_sections_parse_line:
  assumes "parse_line st line n = Inr st'"
  shows "config_sections st' =
           (case match_config_section line of
              None \<Rightarrow> config_sections st
            | Some name \<Rightarrow>
                dict_set name \<lparr>cs_line_number = n, cs_content = []\<rparr> (config_sections st))"
proof -
  from assms obtain st2 where
    s: "parse_stats_line (parse_mcu_info st line n) line n = Inr st2"
    and e: "st' = parse_errors_warnings (fst (parse_config_section st2 line n)) line n"
    by (auto simp: parse_line_def split: sum.splits)
  have "config_sections st2 = config_sections st"
    using config_sections_parse_stats_line [OF s] by (simp add: config_sections_parse_mcu_info)
  then show ?thesis
    by (simp add: e parse_errors_warnings_def config_sections_errors_loop parse_config_section_def
        split: option.splits)
qed

lemma match_config_section_Nil: "match_config_section [] = None"
  by (simp add: match_config_section_def)

lemma parse_lines_config_sections:
  "parse_lines st lno logfile = Inr st' \<Longrightarrow>
   dict_get (config_sections st') name =
     (case last_declaration lno logfile name of
        None \<Rightarrow> dict_get (config_sections st) name
      | Some n \<Rightarrow> Some \<lparr>cs_line_number = n, cs_content = []\<rparr>)"
proof (induction logfile arbitrary: st lno)
  case Nil
  then show ?case by simp
next
  case (Cons l ls)
  show ?case
  proof (cases "strip l = []")
    case True
    with Cons.prems have "parse_lines st (lno + 1) ls = Inr st'" by (simp add: Let_def)
    from Cons.IH [OF this] True show ?thesis
      by (simp add: match_config_section_Nil split: option.splits)
  next
    case False
    with Cons.prems obtain st1 where
      p: "parse_line st (strip l) (lno + 1) = Inr st1" and r: "parse_lines st1 (lno + 1) ls = Inr st'"
      by (auto simp: Let_def split: sum.splits)
    from Cons.IH [OF r] config_sections_parse_line [OF p] show ?thesis
      by (auto simp: dict_get_dict_set split: option.splits)
  qed
qed

text \<open>
  C4, as the code has it. The claim reads: where the same header \<^verbatim>\<open>[name]\<close> occurs more
  than once, the section keeps the line number of the first occurrence. The code assigns
  the descriptor at every header, so the line number is that of the last occurrence: two
  headers \<^verbatim>\<open>[printer]\<close> on lines 1 and 2 leave line number 2.
\<close>

theorem section_first_declaration_counterexample:
  "(case parse_log [''[printer]'', ''[printer]''] of
      Inl e \<Rightarrow> None
    | Inr st \<Rightarrow> dict_get (config_sections st) ''printer'')
   = Some \<lparr>cs_line_number = 2, cs_content = []\<rparr>"
  by code_simp

text \<open>
  C4, amended. After a log is parsed, the section recorded for \<open>name\<close> carries the number
  of the last line that is the header \<^verbatim>\<open>[name]\<close>, and no section is recorded for a name
  with no header line: declaring a section again replaces the stored line number.
\<close>

theorem section_last_declaration_wins:
  assumes "parse_log logfile = Inr st"
  shows "dict_get (config_sections st) name =
           map_option (\<lambda>n. \<lparr>cs_line_number = n, cs_content = []\<rparr>) (last_declaration 0 logfile name)"
  using parse_lines_config_sections [of init 0 logfile st name] assms
  by (simp add: parse_log_def init_def dict_get_def split: option.splits)

theorem section_last_declaration_wins_witness:
  "parse_log [''[printer]'', ''step_pin: PB1'', ''[printer]''] =
     Inr (init\<lparr>config_sections := [(''printer'', \<lparr>cs_line_number = 3, cs_content = []\<rparr>)]\<rparr>)
   \<and> last_declaration 0 [''[printer]'', ''step_pin: PB1'', ''[printer]''] ''printer'' = Some 3
   \<and> dict_get (config_sections
        (init\<lparr>config_sections := [(''printer'', \<lparr>cs_line_number = 3, cs_content = []\<rparr>)]\<rparr>))
        ''printer'' = Some \<lparr>cs_line_number = 3, cs_content = []\<rparr>"
proof -
  have p: "parse_log [''[printer]'', ''step_pin: PB1'', ''[printer]''] =
     Inr (init\<lparr>config_sections := [(''printer'', \<lparr>cs_line_number = 3, cs_content = []\<rparr>)]\<rparr>)"
    by code_simp
  have l: "last_declaration 0 [''[printer]'', ''step_pin: PB1'', ''[printer]''] ''printer'' = Some 3"
    by code_simp
  show ?thesis
    using section_last_declaration_wins [OF p, of "''printer''"] p l by simp
qed

subsection \<open>The sub-scans of a stats line, evaluated\<close>

text \<open>
  C2. The claim reads: no exception leaves the parsing of a line, and a captured value
  that is no number is kept as text by each of the four sub-scans. The generic scan does
  so (the text \<^verbatim>\<open>1.2.3\<close> is stored under \<^verbatim>\<open>temp\<close>); the sensor scans call \<^verbatim>\<open>float\<close> with
  no handler, and on the line \<^verbatim>\<open>Stats 1.0: extruder: temp=1.2.3\<close> the \<^verbatim>\<open>ValueError\<close> leaves
  \<^verbatim>\<open>_parse_stats_line\<close> and \<^verbatim>\<open>parse_log\<close>.
\<close>

theorem sensor_scan_float_unguarded:
  "stats_dict_of (Fin 1) 1 ''temp=1.2.3'' =
     Inr [(''timestamp'', PFloat (Fin 1)), (''line_number'', PInt 1), (''temp'', PStr ''1.2.3'')]
   \<and> stats_dict_of (Fin 1) 1 ''extruder: temp=1.2.3'' = Inl ValueError
   \<and> parse_log [''Stats 1.0: extruder: temp=1.2.3''] = Inl ValueError"
  by code_simp

text \<open>
  C8. The claim reads: from \<^verbatim>\<open>extruder: temp=205.3 target=210.0 pwm=0.45\<close> the snapshot
  holds \<^verbatim>\<open>extruder_temp\<close>, \<^verbatim>\<open>extruder_target\<close> and \<^verbatim>\<open>extruder_pwm\<close>. The target pattern
  wants \<^verbatim>\<open>target=\<close> right after the sensor name and the colon, where this line has
  \<^verbatim>\<open>temp=\<close>: the snapshot holds \<^verbatim>\<open>extruder_temp\<close> and \<^verbatim>\<open>extruder_pwm\<close>, the bare key
  \<^verbatim>\<open>target\<close> from the generic scan, and no \<^verbatim>\<open>extruder_target\<close>.
\<close>

theorem target_after_temp_not_extracted:
  "(case parse_log [''Stats 1.0: extruder: temp=205.3 target=210.0 pwm=0.45''] of
      Inl e \<Rightarrow> []
    | Inr st \<Rightarrow>
        map (\<lambda>d. (dict_get d ''extruder_temp'', dict_get d ''extruder_target'',
                   dict_get d ''extruder_pwm'', dict_get d ''target'')) (stats_data st))
   = [(Some (PFloat (Fin (2053 / 10))), None, Some (PFloat (Fin (9 / 20))),
       Some (PFloat (Fin 210)))]"
  by code_simp

subsection \<open>The two reports, evaluated\<close>

lemma fless_irrefl: "\<not> fless x x"
  by (cases x) auto

lemma trend_equal_ends: "1 < length xs \<Longrightarrow> hd xs = last xs \<Longrightarrow> trend xs = ''decreasing''"
  by (simp add: trend_def fless_irrefl)

text \<open>
  C1. The claim reads: a metric with two or more values whose first and last are equal has
  the trend \<^verbatim>\<open>stable\<close>. The conditional expression reaches \<^verbatim>\<open>stable\<close> only for a series
  of one value; two snapshots with \<^verbatim>\<open>freq=1.0\<close> are reported as \<^verbatim>\<open>decreasing\<close>.
\<close>

theorem equal_first_last_reported_decreasing:
  "(case parse_log [''Stats 1.0: freq=1.0'', ''Stats 2.0: freq=1.0''] of
      Inl e \<Rightarrow> None
    | Inr st \<Rightarrow>
        (case generate_performance_report st of
           Inr (ReportDict r) \<Rightarrow>
             (case dict_get (rep_performance_metrics r) ''freq'' of
                Some entry \<Rightarrow> Some (dropna (stats_data st) ''freq'', dict_get entry ''trend'')
              | None \<Rightarrow> None)
         | _ \<Rightarrow> None))
   = Some ([PFloat (Fin 1), PFloat (Fin 1)], Some (PStr ''decreasing''))"
  by code_simp

text \<open>
  C5. The claim reads: with fewer than two snapshots, the runtime and the stats frequency
  are 0 in both reports, and nothing is divided by zero. With one snapshot the performance
  report gives 0 and 0; the health report divides the row count 1 by the runtime 0 and
  shows the frequency as infinite.
\<close>

theorem health_frequency_single_snapshot:
  "(case parse_log [''Stats 1.0: sysload=0.5''] of
      Inl e \<Rightarrow> None
    | Inr st \<Rightarrow>
        (case (generate_performance_report st, generate_health_report st) of
           (Inr (ReportDict r), Inr h) \<Rightarrow>
             Some (length (stats_data st),
                   dict_get (summary r) ''total_runtime'', dict_get (summary r) ''stats_frequency'',
                   filter (\<lambda>l. fst l = ''  Runtime: {:.1f} seconds''
                                \<or> fst l = ''  Stats frequency: {:.2f} Hz'') h)
         | _ \<Rightarrow> None))
   = Some (1, Some (PInt 0), Some (PInt 0),
           [(''  Runtime: {:.1f} seconds'', [PFloat (Fin 0)]),
            (''  Stats frequency: {:.2f} Hz'', [PFloat PInf])])"
  by code_simp

subsection \<open>The recommendations of the health report\<close>

lemma report_recommendations_append:
  "report_recommendations (a @ b) = report_recommendations a @ report_recommendations b"
  by (simp add: report_recommendations_def)

lemma report_recommendations_Cons:
  "report_recommendations ((t, args) # r) =
     (if t = ''  {i}. {rec}'' then (case args of [i, PStr rec] \<Rightarrow> [rec] | _ \<Rightarrow> []) else [])
     @ report_recommendations r"
  by (simp add: report_recommendations_def)

lemma report_recommendations_Nil: "report_recommendations [] = []"
  by (simp add: report_recommendations_def)

lemma report_recommendations_none:
  "\<forall>l \<in> set r. fst l \<noteq> ''  {i}. {rec}'' \<Longrightarrow> report_recommendations r = []"
  by (induction r) (auto simp: report_recommendations_def)

lemma report_recommendations_numbered: "report_recommendations (numbered i recs) = recs"
  by (induction recs arbitrary: i) (auto simp: report_recommendations_def)

lemma mcu_section_none: "report_recommendations (mcu_section st) = []"
  by (rule report_recommendations_none) (auto simp: mcu_section_def)

lemma error_section_none: "report_recommendations (error_section st) = []"
  by (rule report_recommendations_none) (auto simp: error_section_def)

lemma sysload_lines_none: "sysload_lines df = Inr ls \<Longrightarrow> report_recommendations ls = []"
  by (rule report_recommendations_none)
    (auto simp: sysload_lines_def split: if_splits sum.splits)

lemma memavail_lines_none: "memavail_lines df = Inr ls \<Longrightarrow> report_recommendations ls = []"
  by (rule report_recommendations_none)
    (auto simp: memavail_lines_def split: if_splits sum.splits)

lemma performance_section_none:
  "performance_section st = Inr ls \<Longrightarrow> report_recommendations ls = []"
  by (auto simp: performance_section_def Let_def report_recommendations_append
      report_recommendations_Cons report_recommendations_Nil
      split: if_splits sum.splits prod.splits dest: sysload_lines_none memavail_lines_none)

lemma communication_section_none:
  "communication_section st = Inr ls \<Longrightarrow> report_recommendations ls = []"
  by (rule report_recommendations_none)
    (auto simp: communication_section_def Let_def split: if_splits sum.splits)

lemma temperature_lines_none:
  "temperature_lines cols df = Inr ls \<Longrightarrow> report_recommendations ls = []"
proof (induction cols arbitrary: ls)
  case Nil
  then show ?case by (simp add: report_recommendations_Nil)
next
  case (Cons c cols)
  then show ?case
    by (auto simp: report_recommendations_append report_recommendations_Cons
        report_recommendations_Nil split: if_splits sum.splits)
qed

lemma temperature_section_none:
  "temperature_section st = Inr ls \<Longrightarrow> report_recommendations ls = []"
  by (auto simp: temperature_section_def Let_def report_recommendations_Cons
      report_recommendations_Nil split: if_splits sum.splits dest: temperature_lines_none)

lemma health_report_recommendations:
  assumes "generate_health_report st = Inr r"
  shows "\<exists>recs. recommendations st = Inr recs \<and> report_recommendations r = recs"
proof -
  from assms obtain perf comm temp recs where
    p: "performance_section st = Inr perf" and c: "communication_section st = Inr comm"
    and t: "temperature_section st = Inr temp" and rc: "recommendations st = Inr recs"
    and r: "r = [(''KLIPPER LOG HEALTH REPORT'', []),
                 (''=================================================='', [])]
              @ mcu_section st @ perf @ error_section st @ comm @ temp
              @ [(''RECOMMENDATIONS:'', [])] @ numbered 1 recs
              @ [(''Report generated: {}'', [])]"
    by (auto simp: generate_health_report_def split: sum.splits)
  have "report_recommendations r = recs"
    unfolding r
    by (simp add: report_recommendations_append report_recommendations_Cons
        report_recommendations_Nil report_recommendations_numbered mcu_section_none
        error_section_none performance_section_none [OF p] communication_section_none [OF c]
        temperature_section_none [OF t])
  with rc show ?thesis by simp
qed

lemma recommendations_with_stats:
  assumes "stats_data st \<noteq> []" and "10 < length (errors st)" and "recommendations st = Inr recs"
  shows "''High error count detected - review printer configuration'' \<in> set recs
         \<and> ''System appears healthy - no immediate concerns'' \<notin> set recs"
proof -
  from assms(1,3) obtain r1 r2 r4 where
    s: "sysload_rule (stats_data st) = Inr r1" and m: "memavail_rule (stats_data st) = Inr r2"
    and x: "rx_error_rule (stats_data st) = Inr r4"
    and recs: "recs = (if r1 @ r2 @ errors_rule st @ r4 = []
                       then [''System appears healthy - no immediate concerns'']
                       else r1 @ r2 @ errors_rule st @ r4)"
    by (auto simp: recommendations_def split: sum.splits)
  have e: "errors_rule st = [''High error count detected - review printer configuration'']"
    using assms(2) by (simp add: errors_rule_def)
  have h1: "''System appears healthy - no immediate concerns'' \<notin> set r1"
    using s by (auto simp: sysload_rule_def split: if_splits sum.splits)
  have h2: "''System appears healthy - no immediate concerns'' \<notin> set r2"
    using m by (auto simp: memavail_rule_def split: if_splits sum.splits)
  have h4: "''System appears healthy - no immediate concerns'' \<notin> set r4"
    using x by (auto simp: rx_error_rule_def split: if_splits sum.splits)
  show ?thesis
    using h1 h2 h4 by (simp add: recs e)
qed

lemma health_report_without_stats:
  assumes "stats_data st = []"
  shows "\<exists>r. generate_health_report st = Inr r
           \<and> report_recommendations r = [''System appears healthy - no immediate concerns'']"
proof -
  have rc: "recommendations st = Inr [''System appears healthy - no immediate concerns'']"
    using assms by (simp add: recommendations_def)
  have "\<exists>r. generate_health_report st = Inr r"
    using assms
    by (simp add: generate_health_report_def performance_section_def communication_section_def
        temperature_section_def rc)
  then obtain r where r: "generate_health_report st = Inr r" by blast
  from health_report_recommendations [OF r] rc r show ?thesis by auto
qed

text \<open>
  C3, as the code has it. The claim reads: the four rules are evaluated independently, so
  more than 10 error entries give the recommendation to review the configuration even with
  no stats snapshot. The four rules stand under \<^verbatim>\<open>if self.stats_data:\<close>; a log of 11 error
  lines and no stats line gets the single line for a healthy system.
\<close>

theorem error_rule_needs_stats_counterexample:
  "(case parse_log (replicate 11 ''ERROR: thermal runaway'') of
      Inl e \<Rightarrow> None
    | Inr st \<Rightarrow>
        (case generate_health_report st of
           Inl e \<Rightarrow> None
         | Inr r \<Rightarrow> Some (length (errors st), length (stats_data st), report_recommendations r)))
   = Some (11, 0, [''System appears healthy - no immediate concerns''])"
  by code_simp

text \<open>
  C3, amended. The rules are evaluated only when there is at least one stats snapshot: then
  a health report that is produced for more than 10 error entries recommends to review the
  configuration and does not show the line for a healthy system. With no snapshot the
  report is produced and its only recommendation is the line for a healthy system,
  whatever the number of errors.
\<close>

theorem recommendations_gated_by_stats:
  "(stats_data st \<noteq> [] \<longrightarrow> 10 < length (errors st) \<longrightarrow> generate_health_report st = Inr r \<longrightarrow>
      ''High error count detected - review printer configuration'' \<in> set (report_recommendations r)
      \<and> ''System appears healthy - no immediate concerns'' \<notin> set (report_recommendations r))
   \<and> (stats_data st = [] \<longrightarrow>
      (\<exists>r'. generate_health_report st = Inr r'
         \<and> report_recommendations r' = [''System appears healthy - no immediate concerns'']))"
proof (intro conjI impI)
  assume a: "stats_data st \<noteq> []" "10 < length (errors st)" "generate_health_report st = Inr r"
  from health_report_recommendations [OF a(3)]
  have "recommendations st = Inr (report_recommendations r)" by simp
  from recommendations_with_stats [OF a(1,2) this]
  show "''High error count detected - review printer configuration'' \<in> set (report_recommendations r)"
    and "''System appears healthy - no immediate concerns'' \<notin> set (report_recommendations r)"
    by simp_all
next
  assume "stats_data st = []"
  then show "\<exists>r'. generate_health_report st = Inr r'
         \<and> report_recommendations r' = [''System appears healthy - no immediate concerns'']"
    by (rule health_report_without_stats)
qed

theorem recommendations_gated_by_stats_witness:
  "(let e = \<lparr>err_line_number = 1, err_type = ''error'', err_message = ''error''\<rparr>;
        st1 = init\<lparr>stats_data := [[(''timestamp'', PFloat (Fin 1)), (''line_number'', PInt 1)]],
                   errors := replicate 11 e\<rparr>;
        st0 = init\<lparr>errors := replicate 11 e\<rparr>
    in stats_data st1 \<noteq> [] \<and> 10 < length (errors st1) \<and> stats_data st0 = []
       \<and> (case generate_health_report st1 of
             Inl e \<Rightarrow> False
           | Inr r \<Rightarrow>
               ''High error count detected - review printer configuration''
                 \<in> set (report_recommendations r))
       \<and> (case generate_health_report st0 of
             Inl e \<Rightarrow> False
           | Inr r \<Rightarrow>
               report_recommendations r = [''System appears healthy - no immediate concerns'']))"
proof -
  define e where "e = \<lparr>err_line_number = 1, err_type = ''error'', err_message = ''error''\<rparr>"
  define st1 where
    "st1 = init\<lparr>stats_data := [[(''timestamp'', PFloat (Fin 1)), (''line_number'', PInt 1)]],
               errors := replicate 11 e\<rparr>"
  define st0 where "st0 = init\<lparr>errors := replicate 11 e\<rparr>"
  have s1: "stats_data st1 \<noteq> []" and l1: "10 < length (errors st1)"
    and s0: "stats_data st0 = []"
    by (simp_all add: st1_def st0_def init_def)
  have "case generate_health_report st1 of Inl e \<Rightarrow> False | Inr r \<Rightarrow> True"
    unfolding st1_def e_def by code_simp
  then obtain r1 where r1: "generate_health_report st1 = Inr r1"
    by (cases "generate_health_report st1") auto
  from recommendations_gated_by_stats [of st1 r1] s1 l1 r1
  have a: "case generate_health_report st1 of
             Inl e \<Rightarrow> False
           | Inr r \<Rightarrow> ''High error count detected - review printer configuration''
                 \<in> set (report_recommendations r)"
    by simp
  from recommendations_gated_by_stats [of st0 r1] s0
  have b: "case generate_health_report st0 of
             Inl e \<Rightarrow> False
           | Inr r \<Rightarrow> report_recommendations r = [''System appears healthy - no immediate concerns'']"
    by auto
  show ?thesis
    unfolding Let_def e_def [symmetric] st1_def [symmetric] st0_def [symmetric]
    using s1 l1 s0 a b by simp
qed

end
